theory Spec2Isabelle
  imports Main
begin

section \<open>Strings of the to-do application\<close>

text \<open>
  A Python \<open>str\<close> is a sequence of Unicode code points, so a string is modelled as a
  list of code points. Literals of the source are written as Isabelle string literals
  and converted with \<open>lit\<close>.
\<close>

type_synonym pystr = "nat list"

definition lit :: "string \<Rightarrow> pystr" where
  "lit s = map of_char s"

text \<open>
  \<open>str.isspace\<close> on one code point: the characters that \<open>str.strip()\<close> with no
  argument removes (bidirectional class WS, B or S, or category Zs).
\<close>

definition isspace :: "nat \<Rightarrow> bool" where
  "isspace c \<longleftrightarrow>
     (0x09 \<le> c \<and> c \<le> 0x0D) \<or> (0x1C \<le> c \<and> c \<le> 0x20) \<or> c = 0x85 \<or> c = 0xA0 \<or>
     c = 0x1680 \<or> (0x2000 \<le> c \<and> c \<le> 0x200A) \<or> c = 0x2028 \<or> c = 0x2029 \<or>
     c = 0x202F \<or> c = 0x205F \<or> c = 0x3000"

definition lstrip :: "pystr \<Rightarrow> pystr" where
  "lstrip s = dropWhile isspace s"

definition rstrip :: "pystr \<Rightarrow> pystr" where
  "rstrip s = rev (dropWhile isspace (rev s))"

text \<open>\<open>s.strip()\<close>: leading and trailing whitespace removed.\<close>

definition strip :: "pystr \<Rightarrow> pystr" where
  "strip s = rstrip (lstrip s)"

text \<open>The decimal text of a non-negative integer, as \<open>{i+1}\<close> in an f-string gives it.\<close>

fun str_of_nat :: "nat \<Rightarrow> pystr" where
  "str_of_nat n = (if n < 10 then [48 + n] else str_of_nat (n div 10) @ [48 + n mod 10])"

declare str_of_nat.simps [simp del]

section \<open>The task store\<close>

text \<open>The global list \<open>tasks\<close> as it is when the process starts.\<close>

definition initial_tasks :: "pystr list" where
  "initial_tasks = [lit ''Learn Docker'', lit ''Build a Web App'', lit ''Containerize the App'']"

section \<open>The HTML generator\<close>

text \<open>The pieces of the f-string that the loop adds for one task.\<close>

definition item_open :: pystr where
  \<open>item_open =
     lit ''\<newline>'' @
     lit ''            <li class="flex items-center justify-between bg-white p-3 rounded-lg shadow mb-2 transition duration-150 ease-in-out hover:bg-gray-50">\<newline>'' @
     lit ''                <span class="text-gray-800 text-lg font-medium">''\<close>

definition item_close :: pystr where
  \<open>item_close =
     lit ''</span>\<newline>'' @
     lit ''                <span class="text-sm text-gray-400">Added locally</span>\<newline>'' @
     lit ''            </li>\<newline>'' @
     lit ''            ''\<close>

definition task_item :: "nat \<Rightarrow> pystr \<Rightarrow> pystr" where
  "task_item i task = item_open @ str_of_nat (i + 1) @ lit ''. '' @ task @ item_close"

text \<open>
  The loop \<open>for i, task in enumerate(tasks_list): task_items += ...\<close>, with the
  running index and the accumulated text as arguments.
\<close>

fun task_items_loop :: "nat \<Rightarrow> pystr list \<Rightarrow> pystr \<Rightarrow> pystr" where
  "task_items_loop i [] task_items = task_items"
| "task_items_loop i (task # rest) task_items =
     task_items_loop (i + 1) rest (task_items @ task_item i task)"

definition no_tasks_item :: pystr where
  \<open>no_tasks_item =
     lit ''<li class="text-center py-8 text-gray-500 italic">No tasks yet! Add one above.</li>''\<close>

definition page_head :: pystr where
  \<open>page_head =
     lit ''\<newline>'' @
     lit ''<!DOCTYPE html>\<newline>'' @
     lit ''<html lang="en">\<newline>'' @
     lit ''<head>\<newline>'' @
     lit ''    <meta charset="UTF-8">\<newline>'' @
     lit ''    <meta name="viewport" content="width=device-width, initial-scale=1.0">\<newline>'' @
     lit ''    <title>Simple Containerized To-Do App</title>\<newline>'' @
     lit ''    <!-- Load Tailwind CSS -->\<newline>'' @
     lit ''    <script src="https://cdn.tailwindcss.com"></script>\<newline>'' @
     lit ''    <style>\<newline>'' @
     lit ''        body {\<newline>'' @
     lit ''            font-family: 'Inter', sans-serif;\<newline>'' @
     lit ''            background-color: #f3f4f6;\<newline>'' @
     lit ''        }\<newline>'' @
     lit ''    </style>\<newline>'' @
     lit ''</head>\<newline>'' @
     lit ''<body class="p-8">\<newline>'' @
     lit ''    <div class="max-w-xl mx-auto bg-white p-8 rounded-xl shadow-2xl">\<newline>'' @
     lit ''        <h1 class="text-4xl font-bold text-center mb-6 text-indigo-700">Containerized To-Do List</h1>\<newline>'' @
     lit ''        <p class="text-center text-gray-500 mb-8">A slightly more functional Flask app ready for Docker!</p>\<newline>'' @
     lit ''\<newline>'' @
     lit ''        <!-- Task Input Form -->\<newline>'' @
     lit ''        <form method="POST" class="flex space-x-4 mb-10 p-4 border border-indigo-200 rounded-xl bg-indigo-50 shadow-inner">\<newline>'' @
     lit ''            <input\<newline>'' @
     lit ''                type="text"\<newline>'' @
     lit ''                name="new_task"\<newline>'' @
     lit ''                placeholder="What needs to be done?"\<newline>'' @
     lit ''                required\<newline>'' @
     lit ''                class="flex-grow p-3 border border-gray-300 rounded-lg focus:outline-none focus:ring-2 focus:ring-indigo-500"\<newline>'' @
     lit ''            >\<newline>'' @
     lit ''            <button\<newline>'' @
     lit ''                type="submit"\<newline>'' @
     lit ''                class="bg-indigo-600 hover:bg-indigo-700 text-white font-semibold py-3 px-6 rounded-lg shadow-md transition duration-300 ease-in-out transform hover:scale-105"\<newline>'' @
     lit ''            >\<newline>'' @
     lit ''                Add Task\<newline>'' @
     lit ''            </button>\<newline>'' @
     lit ''        </form>\<newline>'' @
     lit ''\<newline>'' @
     lit ''        <!-- Task List Display -->\<newline>'' @
     lit ''        <ul id="task-list" class="space-y-3">\<newline>'' @
     lit ''            ''\<close>

definition page_tail :: pystr where
  \<open>page_tail =
     lit ''\<newline>'' @
     lit ''        </ul>\<newline>'' @
     lit ''    </div>\<newline>'' @
     lit ''</body>\<newline>'' @
     lit ''</html>\<newline>''\<close>

definition get_html_template :: "pystr list \<Rightarrow> pystr" where
  "get_html_template tasks_list =
     (let task_items = (if tasks_list \<noteq> [] then task_items_loop 0 tasks_list []
                        else no_tasks_item)
      in page_head @ task_items @ page_tail)"

section \<open>The request handler\<close>

text \<open>
  A request carries its method and its form fields; \<open>request.form.get(k)\<close> is the first
  value stored under \<open>k\<close>, or \<open>None\<close>.
\<close>

record request =
  "method" :: string
  form :: "(pystr \<times> pystr) list"

definition form_get :: "(pystr \<times> pystr) list \<Rightarrow> pystr \<Rightarrow> pystr option" where
  "form_get f k = map_of f k"

text \<open>A response is a page with status 200, or a redirect with its location and status.\<close>

datatype response = Html pystr | Redirect pystr nat

text \<open>\<open>redirect(location)\<close> of Flask answers with status 302.\<close>

definition redirect :: "pystr \<Rightarrow> response" where
  "redirect location = Redirect location 302"

text \<open>\<open>url_for('todo_list')\<close>: the handler is registered on the route \<open>/\<close>.\<close>

definition url_for_todo_list :: pystr where
  "url_for_todo_list = lit ''/''"

text \<open>
  The handler, with the global list passed in and returned. A string is true in
  \<open>if new_task:\<close> when it is not empty; \<open>None\<close> is false.
\<close>

definition todo_list :: "request \<Rightarrow> pystr list \<Rightarrow> response \<times> pystr list" where
  "todo_list req tasks =
     (if method req = ''POST'' then
        (let new_task = form_get (form req) (lit ''new_task'');
             tasks' = (case new_task of
                         None \<Rightarrow> tasks
                       | Some v \<Rightarrow> if v \<noteq> [] then tasks @ [strip v] else tasks)
         in (redirect url_for_todo_list, tasks'))
      else (Html (get_html_template tasks), tasks))"

text \<open>The store after a sequence of requests, handled one after the other.\<close>

fun serve :: "request list \<Rightarrow> pystr list \<Rightarrow> pystr list" where
  "serve [] tasks = tasks"
| "serve (req # reqs) tasks = serve reqs (snd (todo_list req tasks))"

text \<open>
  A string has no leading and no trailing whitespace when neither its first nor its last
  character is a whitespace character; the empty string has neither.
\<close>

definition no_edge_space :: "pystr \<Rightarrow> bool" where
  "no_edge_space s \<longleftrightarrow>
     (case s of [] \<Rightarrow> True | c # _ \<Rightarrow> \<not> isspace c) \<and>
     (case rev s of [] \<Rightarrow> True | c # _ \<Rightarrow> \<not> isspace c)"

section \<open>Properties of the string functions\<close>

lemma lit_append: "lit (a @ b) = lit a @ lit b"
  by (simp add: lit_def)

lemma dropWhile_head: "(case dropWhile P xs of [] \<Rightarrow> True | c # _ \<Rightarrow> \<not> P c)"
  by (induction xs) auto

lemma lstrip_split: "\<exists>l. s = l @ lstrip s \<and> list_all isspace l"
proof -
  have "s = takeWhile isspace s @ lstrip s" by (simp add: lstrip_def)
  moreover have "list_all isspace (takeWhile isspace s)"
    by (simp add: list_all_iff) (meson set_takeWhileD)
  ultimately show ?thesis by blast
qed

lemma rstrip_split: "\<exists>r. s = rstrip s @ r \<and> list_all isspace r"
proof -
  let ?t = "takeWhile isspace (rev s)"
  have "rev (?t @ dropWhile isspace (rev s)) = rev (rev s)"
    by (simp only: takeWhile_dropWhile_id)
  then have "rev (dropWhile isspace (rev s)) @ rev ?t = s"
    by (simp only: rev_append rev_rev_ident)
  then have "s = rstrip s @ rev ?t" by (simp add: rstrip_def)
  moreover have "list_all isspace (rev ?t)"
    by (simp add: list_all_iff) (meson set_takeWhileD)
  ultimately show ?thesis by blast
qed

lemma strip_split:
  "\<exists>l r. s = l @ strip s @ r \<and> list_all isspace l \<and> list_all isspace r"
proof -
  obtain l where l: "s = l @ lstrip s" "list_all isspace l" using lstrip_split by blast
  obtain r where r: "lstrip s = rstrip (lstrip s) @ r" "list_all isspace r"
    using rstrip_split by blast
  have "s = l @ strip s @ r" using l(1) r(1) by (simp add: strip_def)
  with l(2) r(2) show ?thesis by blast
qed

lemma rstrip_last: "(case rev (rstrip s) of [] \<Rightarrow> True | c # _ \<Rightarrow> \<not> isspace c)"
  by (simp add: rstrip_def dropWhile_head)

lemma rstrip_keeps_head:
  "(case s of [] \<Rightarrow> True | c # _ \<Rightarrow> \<not> isspace c) \<Longrightarrow>
   (case rstrip s of [] \<Rightarrow> True | c # _ \<Rightarrow> \<not> isspace c)"
proof (cases s)
  case Nil then show ?thesis by (simp add: rstrip_def)
next
  case (Cons c t)
  assume "case s of [] \<Rightarrow> True | c # _ \<Rightarrow> \<not> isspace c"
  with Cons have nc: "\<not> isspace c" by simp
  have "rstrip (c # t) = c # rstrip t"
    using nc by (simp add: rstrip_def dropWhile_append)
  with Cons show ?thesis using nc by simp
qed

lemma strip_no_edge_space: "no_edge_space (strip s)"
  unfolding no_edge_space_def strip_def
  using rstrip_last rstrip_keeps_head [OF dropWhile_head [of isspace s, folded lstrip_def]]
  by blast

lemma str_of_nat_digits: "list_all (\<lambda>c. 48 \<le> c \<and> c \<le> 57) (str_of_nat n)"
proof (induction n rule: str_of_nat.induct)
  case (1 n)
  show ?case
  proof (cases "n < 10")
    case True
    then show ?thesis by (subst str_of_nat.simps) simp
  next
    case False
    have "n mod 10 < 10" by simp
    then have "48 + n mod 10 \<le> 57" by linarith
    with False 1 show ?thesis by (subst str_of_nat.simps) simp
  qed
qed

lemma str_of_nat_value: "foldl (\<lambda>a c. 10 * a + (c - 48)) 0 (str_of_nat n) = n"
proof (induction n rule: str_of_nat.induct)
  case (1 n)
  show ?case
  proof (cases "n < 10")
    case True
    then show ?thesis by (subst str_of_nat.simps) simp
  next
    case False
    with 1 show ?thesis by (subst str_of_nat.simps) simp
  qed
qed

section \<open>Properties of the generator and of the handler\<close>

lemma todo_list_other_store:
  "method req \<noteq> ''POST'' \<Longrightarrow> snd (todo_list req tasks) = tasks"
  by (simp add: todo_list_def)

lemma todo_list_post_store:
  "method req = ''POST'' \<Longrightarrow>
   snd (todo_list req tasks) =
     (case form_get (form req) (lit ''new_task'') of
        None \<Rightarrow> tasks
      | Some v \<Rightarrow> if v \<noteq> [] then tasks @ [strip v] else tasks)"
  by (simp add: todo_list_def Let_def)

lemma strip_nonempty_arg: "strip v \<noteq> [] \<Longrightarrow> v \<noteq> []"
  by (auto simp: strip_def lstrip_def rstrip_def)

lemma serve_submits:
  "\<forall>r\<in>set reqs. method r = ''POST'' \<Longrightarrow>
   map (\<lambda>r. form_get (form r) (lit ''new_task'')) reqs = map Some vs \<Longrightarrow>
   \<forall>v\<in>set vs. v \<noteq> [] \<Longrightarrow>
   serve reqs tasks = tasks @ map strip vs"
proof (induction reqs arbitrary: vs tasks)
  case Nil
  then show ?case by simp
next
  case (Cons r reqs)
  from Cons.prems(2) obtain v vs' where vs: "vs = v # vs'"
    and v: "form_get (form r) (lit ''new_task'') = Some v"
    and rest: "map (\<lambda>r. form_get (form r) (lit ''new_task'')) reqs = map Some vs'"
    by (cases vs) auto
  from Cons.prems(1) have post: "method r = ''POST''" and posts: "\<forall>r\<in>set reqs. method r = ''POST''"
    by simp_all
  from Cons.prems(3) vs have ne: "v \<noteq> []" and nes: "\<forall>v\<in>set vs'. v \<noteq> []" by simp_all
  have "snd (todo_list r tasks) = tasks @ [strip v]"
    using post v ne by (simp add: todo_list_post_store)
  then show ?case using Cons.IH [OF posts rest nes] vs by simp
qed

lemma todo_list_store_cases:
  "snd (todo_list req tasks) = tasks \<or> (\<exists>v. snd (todo_list req tasks) = tasks @ [strip v])"
  by (auto simp: todo_list_def Let_def split: option.splits)

lemma serve_extends:
  "\<exists>added. serve reqs tasks = tasks @ added \<and> list_all no_edge_space added"
proof (induction reqs arbitrary: tasks)
  case Nil
  then show ?case by simp
next
  case (Cons r reqs)
  obtain added where a: "serve reqs (snd (todo_list r tasks)) = snd (todo_list r tasks) @ added"
    "list_all no_edge_space added" using Cons.IH by blast
  from todo_list_store_cases [of r tasks] show ?case
  proof
    assume "snd (todo_list r tasks) = tasks"
    with a show ?thesis by auto
  next
    assume "\<exists>v. snd (todo_list r tasks) = tasks @ [strip v]"
    then obtain v where "snd (todo_list r tasks) = tasks @ [strip v]" ..
    with a have "serve (r # reqs) tasks = tasks @ (strip v # added)"
      "list_all no_edge_space (strip v # added)"
      by (simp_all add: strip_no_edge_space)
    then show ?thesis by blast
  qed
qed

lemma todo_list_absent_or_empty:
  "method req = ''POST'' \<Longrightarrow>
   form_get (form req) (lit ''new_task'') = None \<or>
   form_get (form req) (lit ''new_task'') = Some [] \<Longrightarrow>
   todo_list req tasks = (Redirect (lit ''/'') 302, tasks)"
  by (auto simp: todo_list_def redirect_def url_for_todo_list_def)

section \<open>The claims\<close>

text \<open>
  C1. The specification says that a submit request whose \<open>new_task\<close> field is absent,
  empty or made of whitespace only leaves the task store unchanged. The handler tests the
  field before it trims it, so a field holding one space passes the test and its trimmed
  value, the empty string, is appended: the store after the request is the store before it
  with one empty item more. An absent or empty field does leave the store as it was.
\<close>

theorem whitespace_submit_appends_empty_item:
  "snd (todo_list \<lparr>method = ''POST'', form = [(lit ''new_task'', lit '' '')]\<rparr> initial_tasks)
     = initial_tasks @ [[]]"
  by (simp add: todo_list_def form_get_def strip_def lstrip_def rstrip_def lit_def isspace_def)

text \<open>
  C2. After N submit requests, each carrying a \<open>new_task\<close> value that is not empty after
  trimming, a retrieve request answers with the page written out below: between the opening
  and the closing tag of the task list stand the entries of the three seed items followed
  by those of the N submitted items (each as it is stored, that is trimmed), in the order of
  submission. Entry number \<open>k\<close> (counted from 0) is a \<open>li\<close> element whose first
  \<open>span\<close> holds the decimal number \<open>k + 1\<close>, a dot, a space and the item. The store
  itself is the seeds followed by the trimmed values.
\<close>

theorem retrieve_after_submits:
  assumes "\<forall>r\<in>set reqs. method r = ''POST''"
    and "map (\<lambda>r. form_get (form r) (lit ''new_task'')) reqs = map Some vs"
    and "\<forall>v\<in>set vs. strip v \<noteq> []"
    and "method get_req = ''GET''"
  shows \<open>todo_list get_req (serve reqs initial_tasks) =
     (Html (lit ''\<newline>'' @
            lit ''<!DOCTYPE html>\<newline>'' @
            lit ''<html lang="en">\<newline>'' @
            lit ''<head>\<newline>'' @
            lit ''    <meta charset="UTF-8">\<newline>'' @
            lit ''    <meta name="viewport" content="width=device-width, initial-scale=1.0">\<newline>'' @
            lit ''    <title>Simple Containerized To-Do App</title>\<newline>'' @
            lit ''    <!-- Load Tailwind CSS -->\<newline>'' @
            lit ''    <script src="https://cdn.tailwindcss.com"></script>\<newline>'' @
            lit ''    <style>\<newline>'' @
            lit ''        body {\<newline>'' @
            lit ''            font-family: 'Inter', sans-serif;\<newline>'' @
            lit ''            background-color: #f3f4f6;\<newline>'' @
            lit ''        }\<newline>'' @
            lit ''    </style>\<newline>'' @
            lit ''</head>\<newline>'' @
            lit ''<body class="p-8">\<newline>'' @
            lit ''    <div class="max-w-xl mx-auto bg-white p-8 rounded-xl shadow-2xl">\<newline>'' @
            lit ''        <h1 class="text-4xl font-bold text-center mb-6 text-indigo-700">Containerized To-Do List</h1>\<newline>'' @
            lit ''        <p class="text-center text-gray-500 mb-8">A slightly more functional Flask app ready for Docker!</p>\<newline>'' @
            lit ''\<newline>'' @
            lit ''        <!-- Task Input Form -->\<newline>'' @
            lit ''        <form method="POST" class="flex space-x-4 mb-10 p-4 border border-indigo-200 rounded-xl bg-indigo-50 shadow-inner">\<newline>'' @
            lit ''            <input\<newline>'' @
            lit ''                type="text"\<newline>'' @
            lit ''                name="new_task"\<newline>'' @
            lit ''                placeholder="What needs to be done?"\<newline>'' @
            lit ''                required\<newline>'' @
            lit ''                class="flex-grow p-3 border border-gray-300 rounded-lg focus:outline-none focus:ring-2 focus:ring-indigo-500"\<newline>'' @
            lit ''            >\<newline>'' @
            lit ''            <button\<newline>'' @
            lit ''                type="submit"\<newline>'' @
            lit ''                class="bg-indigo-600 hover:bg-indigo-700 text-white font-semibold py-3 px-6 rounded-lg shadow-md transition duration-300 ease-in-out transform hover:scale-105"\<newline>'' @
            lit ''            >\<newline>'' @
            lit ''                Add Task\<newline>'' @
            lit ''            </button>\<newline>'' @
            lit ''        </form>\<newline>'' @
            lit ''\<newline>'' @
            lit ''        <!-- Task List Display -->\<newline>'' @
            lit ''        <ul id="task-list" class="space-y-3">\<newline>'' @
            lit ''            '' @
            concat (map (\<lambda>k.
                lit ''\<newline>'' @
                lit ''            <li class="flex items-center justify-between bg-white p-3 rounded-lg shadow mb-2 transition duration-150 ease-in-out hover:bg-gray-50">\<newline>'' @
                lit ''                <span class="text-gray-800 text-lg font-medium">'' @
                str_of_nat (k + 1) @ lit ''. '' @ ([lit ''Learn Docker'', lit ''Build a Web App'', lit ''Containerize the App''] @ map strip vs) ! k @
                lit ''</span>\<newline>'' @
                lit ''                <span class="text-sm text-gray-400">Added locally</span>\<newline>'' @
                lit ''            </li>\<newline>'' @
                lit ''            '')
              [0..<3 + length reqs]) @
            lit ''\<newline>'' @
            lit ''        </ul>\<newline>'' @
            lit ''    </div>\<newline>'' @
            lit ''</body>\<newline>'' @
            lit ''</html>\<newline>''),
      [lit ''Learn Docker'', lit ''Build a Web App'', lit ''Containerize the App''] @ map strip vs)\<close>
proof -
  have ne: "\<forall>v\<in>set vs. v \<noteq> []" using assms(3) strip_nonempty_arg by blast
  have store: "serve reqs initial_tasks = initial_tasks @ map strip vs"
    using serve_submits [OF assms(1) assms(2) ne] .
  have len: "length vs = length reqs"
    using arg_cong [OF assms(2), of length] by simp
  have loop: "task_items_loop i ts acc =
      acc @ concat (map (\<lambda>k. task_item (i + k) (ts ! k)) [0..<length ts])" for i ts acc
  proof (induction ts arbitrary: i acc)
    case Nil
    then show ?case by simp
  next
    case (Cons t ts)
    have "[0..<length (t # ts)] = 0 # map Suc [0..<length ts]"
      by (simp add: upt_conv_Cons map_Suc_upt del: upt_Suc)
    then have "map (\<lambda>k. task_item (i + k) ((t # ts) ! k)) [0..<length (t # ts)] =
        task_item i t # map (\<lambda>k. task_item (i + 1 + k) (ts ! k)) [0..<length ts]"
      by (simp add: comp_def)
    then show ?case using Cons.IH [of "i + 1" "acc @ task_item i t"] by simp
  qed
  have len3: "length (initial_tasks @ map strip vs) = 3 + length reqs"
    by (simp add: initial_tasks_def len)
  have nonempty: "initial_tasks @ map strip vs \<noteq> []" by (simp add: initial_tasks_def)
  have page: "get_html_template (initial_tasks @ map strip vs) =
      page_head @
      concat (map (\<lambda>k. task_item k ((initial_tasks @ map strip vs) ! k)) [0..<3 + length reqs]) @
      page_tail"
    using nonempty len3 by (simp add: get_html_template_def loop)
  have "todo_list get_req (initial_tasks @ map strip vs) =
      (Html (get_html_template (initial_tasks @ map strip vs)), initial_tasks @ map strip vs)"
    using assms(4) by (simp add: todo_list_def)
  then have "todo_list get_req (serve reqs initial_tasks) =
      (Html (page_head @
             concat (map (\<lambda>k. task_item k ((initial_tasks @ map strip vs) ! k))
                       [0..<3 + length reqs]) @
             page_tail),
       initial_tasks @ map strip vs)"
    unfolding store page .
  then show ?thesis
    by (simp only: page_head_def page_tail_def task_item_def item_open_def item_close_def
        initial_tasks_def append_assoc)
qed

theorem retrieve_after_submits_witness:
  \<open>todo_list \<lparr>method = ''GET'', form = []\<rparr>
     (serve [\<lparr>method = ''POST'', form = [(lit ''new_task'', lit ''Write tests  '')]\<rparr>,
             \<lparr>method = ''POST'', form = [(lit ''other'', lit ''x''), (lit ''new_task'', lit '' Deploy'')]\<rparr>]
        initial_tasks) =
   (Html (lit ''\<newline>'' @
          lit ''<!DOCTYPE html>\<newline>'' @
          lit ''<html lang="en">\<newline>'' @
          lit ''<head>\<newline>'' @
          lit ''    <meta charset="UTF-8">\<newline>'' @
          lit ''    <meta name="viewport" content="width=device-width, initial-scale=1.0">\<newline>'' @
          lit ''    <title>Simple Containerized To-Do App</title>\<newline>'' @
          lit ''    <!-- Load Tailwind CSS -->\<newline>'' @
          lit ''    <script src="https://cdn.tailwindcss.com"></script>\<newline>'' @
          lit ''    <style>\<newline>'' @
          lit ''        body {\<newline>'' @
          lit ''            font-family: 'Inter', sans-serif;\<newline>'' @
          lit ''            background-color: #f3f4f6;\<newline>'' @
          lit ''        }\<newline>'' @
          lit ''    </style>\<newline>'' @
          lit ''</head>\<newline>'' @
          lit ''<body class="p-8">\<newline>'' @
          lit ''    <div class="max-w-xl mx-auto bg-white p-8 rounded-xl shadow-2xl">\<newline>'' @
          lit ''        <h1 class="text-4xl font-bold text-center mb-6 text-indigo-700">Containerized To-Do List</h1>\<newline>'' @
          lit ''        <p class="text-center text-gray-500 mb-8">A slightly more functional Flask app ready for Docker!</p>\<newline>'' @
          lit ''\<newline>'' @
          lit ''        <!-- Task Input Form -->\<newline>'' @
          lit ''        <form method="POST" class="flex space-x-4 mb-10 p-4 border border-indigo-200 rounded-xl bg-indigo-50 shadow-inner">\<newline>'' @
          lit ''            <input\<newline>'' @
          lit ''                type="text"\<newline>'' @
          lit ''                name="new_task"\<newline>'' @
          lit ''                placeholder="What needs to be done?"\<newline>'' @
          lit ''                required\<newline>'' @
          lit ''                class="flex-grow p-3 border border-gray-300 rounded-lg focus:outline-none focus:ring-2 focus:ring-indigo-500"\<newline>'' @
          lit ''            >\<newline>'' @
          lit ''            <button\<newline>'' @
          lit ''                type="submit"\<newline>'' @
          lit ''                class="bg-indigo-600 hover:bg-indigo-700 text-white font-semibold py-3 px-6 rounded-lg shadow-md transition duration-300 ease-in-out transform hover:scale-105"\<newline>'' @
          lit ''            >\<newline>'' @
          lit ''                Add Task\<newline>'' @
          lit ''            </button>\<newline>'' @
          lit ''        </form>\<newline>'' @
          lit ''\<newline>'' @
          lit ''        <!-- Task List Display -->\<newline>'' @
          lit ''        <ul id="task-list" class="space-y-3">\<newline>'' @
          lit ''            '' @
          lit ''\<newline>'' @
          lit ''            <li class="flex items-center justify-between bg-white p-3 rounded-lg shadow mb-2 transition duration-150 ease-in-out hover:bg-gray-50">\<newline>'' @
          lit ''                <span class="text-gray-800 text-lg font-medium">'' @
          lit ''1'' @ lit ''. '' @ lit ''Learn Docker'' @
          lit ''</span>\<newline>'' @
          lit ''                <span class="text-sm text-gray-400">Added locally</span>\<newline>'' @
          lit ''            </li>\<newline>'' @
          lit ''            '' @
          lit ''\<newline>'' @
          lit ''            <li class="flex items-center justify-between bg-white p-3 rounded-lg shadow mb-2 transition duration-150 ease-in-out hover:bg-gray-50">\<newline>'' @
          lit ''                <span class="text-gray-800 text-lg font-medium">'' @
          lit ''2'' @ lit ''. '' @ lit ''Build a Web App'' @
          lit ''</span>\<newline>'' @
          lit ''                <span class="text-sm text-gray-400">Added locally</span>\<newline>'' @
          lit ''            </li>\<newline>'' @
          lit ''            '' @
          lit ''\<newline>'' @
          lit ''            <li class="flex items-center justify-between bg-white p-3 rounded-lg shadow mb-2 transition duration-150 ease-in-out hover:bg-gray-50">\<newline>'' @
          lit ''                <span class="text-gray-800 text-lg font-medium">'' @
          lit ''3'' @ lit ''. '' @ lit ''Containerize the App'' @
          lit ''</span>\<newline>'' @
          lit ''                <span class="text-sm text-gray-400">Added locally</span>\<newline>'' @
          lit ''            </li>\<newline>'' @
          lit ''            '' @
          lit ''\<newline>'' @
          lit ''            <li class="flex items-center justify-between bg-white p-3 rounded-lg shadow mb-2 transition duration-150 ease-in-out hover:bg-gray-50">\<newline>'' @
          lit ''                <span class="text-gray-800 text-lg font-medium">'' @
          lit ''4'' @ lit ''. '' @ lit ''Write tests'' @
          lit ''</span>\<newline>'' @
          lit ''                <span class="text-sm text-gray-400">Added locally</span>\<newline>'' @
          lit ''            </li>\<newline>'' @
          lit ''            '' @
          lit ''\<newline>'' @
          lit ''            <li class="flex items-center justify-between bg-white p-3 rounded-lg shadow mb-2 transition duration-150 ease-in-out hover:bg-gray-50">\<newline>'' @
          lit ''                <span class="text-gray-800 text-lg font-medium">'' @
          lit ''5'' @ lit ''. '' @ lit ''Deploy'' @
          lit ''</span>\<newline>'' @
          lit ''                <span class="text-sm text-gray-400">Added locally</span>\<newline>'' @
          lit ''            </li>\<newline>'' @
          lit ''            '' @
          lit ''\<newline>'' @
          lit ''        </ul>\<newline>'' @
          lit ''    </div>\<newline>'' @
          lit ''</body>\<newline>'' @
          lit ''</html>\<newline>''),
    [lit ''Learn Docker'', lit ''Build a Web App'', lit ''Containerize the App'',
     lit ''Write tests'', lit ''Deploy''])\<close>
proof -
  let ?p1 = "\<lparr>method = ''POST'', form = [(lit ''new_task'', lit ''Write tests  '')]\<rparr>"
  let ?p2 = "\<lparr>method = ''POST'', form = [(lit ''other'', lit ''x''), (lit ''new_task'', lit '' Deploy'')]\<rparr>"
  have s: "strip (lit ''Write tests  '') = lit ''Write tests''" "strip (lit '' Deploy'') = lit ''Deploy''"
    by (simp_all add: strip_def lstrip_def rstrip_def lit_def isspace_def)
  have n: "str_of_nat (Suc 0) = lit ''1''" "str_of_nat (Suc (Suc 0)) = lit ''2''"
    "str_of_nat 3 = lit ''3''" "str_of_nat 4 = lit ''4''" "str_of_nat 5 = lit ''5''"
    by (simp_all add: str_of_nat.simps lit_def)
  have u: "[0..<5] = [0, 1, 2, 3, 4]" by (simp add: upt_rec)
  have h1: "\<forall>r\<in>set [?p1, ?p2]. method r = ''POST''" by simp
  have h2: "map (\<lambda>r. form_get (form r) (lit ''new_task'')) [?p1, ?p2] =
            map Some [lit ''Write tests  '', lit '' Deploy'']"
    by (simp add: form_get_def lit_def)
  have h3: "\<forall>v\<in>set [lit ''Write tests  '', lit '' Deploy'']. strip v \<noteq> []"
    by (simp add: s) (simp add: lit_def)
  have h4: "method \<lparr>method = ''GET'', form = []\<rparr> = ''GET''" by simp
  show ?thesis
    using retrieve_after_submits [OF h1 h2 h3 h4]
    by (simp add: s n u)
qed

text \<open>
  C3. A submitted value that is not empty after trimming is stored as the submitted string
  with its leading and trailing whitespace removed: the store grows by exactly that trimmed
  string, the submitted value is the trimmed string between two runs of whitespace, and the
  trimmed string neither starts nor ends with whitespace. Consequently, after any sequence
  of requests the first three items are the seeds and no later item has leading or trailing
  whitespace.
\<close>

theorem submit_stores_trimmed:
  "(method req = ''POST'' \<and> form_get (form req) (lit ''new_task'') = Some v \<and> strip v \<noteq> [] \<longrightarrow>
      snd (todo_list req tasks) = tasks @ [strip v] \<and>
      (\<exists>l r. v = l @ strip v @ r \<and> list_all isspace l \<and> list_all isspace r) \<and>
      no_edge_space (strip v)) \<and>
   take 3 (serve reqs initial_tasks) = initial_tasks \<and>
   list_all no_edge_space (drop 3 (serve reqs initial_tasks))"
proof -
  have a: "snd (todo_list req tasks) = tasks @ [strip v]"
    if "method req = ''POST''" "form_get (form req) (lit ''new_task'') = Some v" "strip v \<noteq> []"
    using that strip_nonempty_arg [of v] by (simp add: todo_list_post_store)
  obtain added where s: "serve reqs initial_tasks = initial_tasks @ added"
    and e: "list_all no_edge_space added"
    using serve_extends by blast
  have l: "length initial_tasks = 3" by (simp add: initial_tasks_def)
  have "take 3 (serve reqs initial_tasks) = initial_tasks"
    and "drop 3 (serve reqs initial_tasks) = added"
    using s l by simp_all
  with a e strip_split [of v] strip_no_edge_space [of v] show ?thesis by simp
qed

theorem submit_stores_trimmed_witness:
  "snd (todo_list \<lparr>method = ''POST'', form = [(lit ''new_task'', lit ''  Write tests  '')]\<rparr>
          initial_tasks) = initial_tasks @ [lit ''Write tests''] \<and>
   drop 3 (serve [\<lparr>method = ''POST'', form = [(lit ''new_task'', lit ''  Write tests  '')]\<rparr>]
             initial_tasks) = [lit ''Write tests'']"
proof -
  let ?p = "\<lparr>method = ''POST'', form = [(lit ''new_task'', lit ''  Write tests  '')]\<rparr>"
  have s: "strip (lit ''  Write tests  '') = lit ''Write tests''"
    by (simp add: strip_def lstrip_def rstrip_def lit_def isspace_def)
  have h: "method ?p = ''POST'' \<and>
           form_get (form ?p) (lit ''new_task'') = Some (lit ''  Write tests  '') \<and>
           strip (lit ''  Write tests  '') \<noteq> []"
    by (simp add: form_get_def s) (simp add: lit_def)
  have t: "snd (todo_list ?p initial_tasks) = initial_tasks @ [lit ''Write tests'']"
    using submit_stores_trimmed [of ?p "lit ''  Write tests  ''" initial_tasks "[?p]"] h
    by (simp only: s) blast
  then show ?thesis by (simp add: initial_tasks_def)
qed

text \<open>
  C4. Every submit request, whatever its \<open>new_task\<close> field holds and whether or not it is
  there, is answered with a redirect (status 302) to \<open>/\<close>, the route of the retrieve
  operation, and never with a rendered page.
\<close>

theorem submit_redirects:
  "method req = ''POST'' \<Longrightarrow>
   fst (todo_list req tasks) = Redirect (lit ''/'') 302 \<and>
   (\<forall>page. fst (todo_list req tasks) \<noteq> Html page)"
  by (simp add: todo_list_def Let_def redirect_def url_for_todo_list_def)

theorem submit_redirects_witness:
  "fst (todo_list \<lparr>method = ''POST'', form = []\<rparr> initial_tasks) = Redirect (lit ''/'') 302 \<and>
   fst (todo_list \<lparr>method = ''POST'', form = [(lit ''new_task'', lit ''Write tests'')]\<rparr> initial_tasks)
     = Redirect (lit ''/'') 302"
  using submit_redirects [of "\<lparr>method = ''POST'', form = []\<rparr>" initial_tasks]
    submit_redirects [of "\<lparr>method = ''POST'', form = [(lit ''new_task'', lit ''Write tests'')]\<rparr>"
      initial_tasks]
  by simp

text \<open>
  C5. The specification says that the store is changed only by appending a trimmed string
  that is not empty. A submit request whose field holds two spaces leads from the initial
  store to a store whose fourth item is the empty string: the test for emptiness comes
  before the trim (the same defect as in C1). That items are never removed or reordered
  is C9.
\<close>

theorem reachable_store_holds_empty_item:
  "serve [\<lparr>method = ''POST'', form = [(lit ''new_task'', lit ''  '')]\<rparr>] initial_tasks
     = [lit ''Learn Docker'', lit ''Build a Web App'', lit ''Containerize the App'', []]"
  by (simp add: todo_list_def form_get_def strip_def lstrip_def rstrip_def isspace_def
      initial_tasks_def) (simp add: lit_def isspace_def)

text \<open>
  C6. At process start the store holds exactly the three seed values, in the order
  "Learn Docker", "Build a Web App", "Containerize the App", and it still does after any
  sequence of requests none of which is a submission.
\<close>

theorem store_at_start:
  "\<forall>r\<in>set reqs. method r \<noteq> ''POST'' \<Longrightarrow>
   serve reqs initial_tasks =
     [lit ''Learn Docker'', lit ''Build a Web App'', lit ''Containerize the App'']"
proof (induction reqs)
  case Nil
  then show ?case by (simp add: initial_tasks_def)
next
  case (Cons r reqs)
  then have "snd (todo_list r initial_tasks) = initial_tasks"
    by (simp add: todo_list_other_store)
  with Cons show ?case by simp
qed

theorem store_at_start_witness:
  "serve [] initial_tasks =
     [lit ''Learn Docker'', lit ''Build a Web App'', lit ''Containerize the App''] \<and>
   serve [\<lparr>method = ''GET'', form = []\<rparr>] initial_tasks =
     [lit ''Learn Docker'', lit ''Build a Web App'', lit ''Containerize the App'']"
  using store_at_start [of "[]"] store_at_start [of "[\<lparr>method = ''GET'', form = []\<rparr>]"]
  by simp

text \<open>
  C7. For a store with no items, the retrieve operation answers with the page written out
  below: inside the task list stands the placeholder entry "No tasks yet! Add one above."
  where the task entries would be, so the list element is not left empty; the store stays
  empty.
\<close>

theorem empty_store_placeholder:
  assumes "method req = ''GET''"
  shows \<open>todo_list req [] =
     (Html (lit ''\<newline>'' @
            lit ''<!DOCTYPE html>\<newline>'' @
            lit ''<html lang="en">\<newline>'' @
            lit ''<head>\<newline>'' @
            lit ''    <meta charset="UTF-8">\<newline>'' @
            lit ''    <meta name="viewport" content="width=device-width, initial-scale=1.0">\<newline>'' @
            lit ''    <title>Simple Containerized To-Do App</title>\<newline>'' @
            lit ''    <!-- Load Tailwind CSS -->\<newline>'' @
            lit ''    <script src="https://cdn.tailwindcss.com"></script>\<newline>'' @
            lit ''    <style>\<newline>'' @
            lit ''        body {\<newline>'' @
            lit ''            font-family: 'Inter', sans-serif;\<newline>'' @
            lit ''            background-color: #f3f4f6;\<newline>'' @
            lit ''        }\<newline>'' @
            lit ''    </style>\<newline>'' @
            lit ''</head>\<newline>'' @
            lit ''<body class="p-8">\<newline>'' @
            lit ''    <div class="max-w-xl mx-auto bg-white p-8 rounded-xl shadow-2xl">\<newline>'' @
            lit ''        <h1 class="text-4xl font-bold text-center mb-6 text-indigo-700">Containerized To-Do List</h1>\<newline>'' @
            lit ''        <p class="text-center text-gray-500 mb-8">A slightly more functional Flask app ready for Docker!</p>\<newline>'' @
            lit ''\<newline>'' @
            lit ''        <!-- Task Input Form -->\<newline>'' @
            lit ''        <form method="POST" class="flex space-x-4 mb-10 p-4 border border-indigo-200 rounded-xl bg-indigo-50 shadow-inner">\<newline>'' @
            lit ''            <input\<newline>'' @
            lit ''                type="text"\<newline>'' @
            lit ''                name="new_task"\<newline>'' @
            lit ''                placeholder="What needs to be done?"\<newline>'' @
            lit ''                required\<newline>'' @
            lit ''                class="flex-grow p-3 border border-gray-300 rounded-lg focus:outline-none focus:ring-2 focus:ring-indigo-500"\<newline>'' @
            lit ''            >\<newline>'' @
            lit ''            <button\<newline>'' @
            lit ''                type="submit"\<newline>'' @
            lit ''                class="bg-indigo-600 hover:bg-indigo-700 text-white font-semibold py-3 px-6 rounded-lg shadow-md transition duration-300 ease-in-out transform hover:scale-105"\<newline>'' @
            lit ''            >\<newline>'' @
            lit ''                Add Task\<newline>'' @
            lit ''            </button>\<newline>'' @
            lit ''        </form>\<newline>'' @
            lit ''\<newline>'' @
            lit ''        <!-- Task List Display -->\<newline>'' @
            lit ''        <ul id="task-list" class="space-y-3">\<newline>'' @
            lit ''            '' @
            lit ''<li class="text-center py-8 text-gray-500 italic">No tasks yet! Add one above.</li>'' @
            lit ''\<newline>'' @
            lit ''        </ul>\<newline>'' @
            lit ''    </div>\<newline>'' @
            lit ''</body>\<newline>'' @
            lit ''</html>\<newline>''),
      [])\<close>
proof -
  have "todo_list req [] = (Html (get_html_template []), [])"
    using assms by (simp add: todo_list_def)
  also have "get_html_template [] = page_head @ no_tasks_item @ page_tail"
    by (simp add: get_html_template_def)
  finally show ?thesis
    by (simp only: page_head_def page_tail_def no_tasks_item_def append_assoc)
qed

theorem empty_store_placeholder_witness:
  \<open>todo_list \<lparr>method = ''GET'', form = []\<rparr> [] =
     (Html (lit ''\<newline>'' @
            lit ''<!DOCTYPE html>\<newline>'' @
            lit ''<html lang="en">\<newline>'' @
            lit ''<head>\<newline>'' @
            lit ''    <meta charset="UTF-8">\<newline>'' @
            lit ''    <meta name="viewport" content="width=device-width, initial-scale=1.0">\<newline>'' @
            lit ''    <title>Simple Containerized To-Do App</title>\<newline>'' @
            lit ''    <!-- Load Tailwind CSS -->\<newline>'' @
            lit ''    <script src="https://cdn.tailwindcss.com"></script>\<newline>'' @
            lit ''    <style>\<newline>'' @
            lit ''        body {\<newline>'' @
            lit ''            font-family: 'Inter', sans-serif;\<newline>'' @
            lit ''            background-color: #f3f4f6;\<newline>'' @
            lit ''        }\<newline>'' @
            lit ''    </style>\<newline>'' @
            lit ''</head>\<newline>'' @
            lit ''<body class="p-8">\<newline>'' @
            lit ''    <div class="max-w-xl mx-auto bg-white p-8 rounded-xl shadow-2xl">\<newline>'' @
            lit ''        <h1 class="text-4xl font-bold text-center mb-6 text-indigo-700">Containerized To-Do List</h1>\<newline>'' @
            lit ''        <p class="text-center text-gray-500 mb-8">A slightly more functional Flask app ready for Docker!</p>\<newline>'' @
            lit ''\<newline>'' @
            lit ''        <!-- Task Input Form -->\<newline>'' @
            lit ''        <form method="POST" class="flex space-x-4 mb-10 p-4 border border-indigo-200 rounded-xl bg-indigo-50 shadow-inner">\<newline>'' @
            lit ''            <input\<newline>'' @
            lit ''                type="text"\<newline>'' @
            lit ''                name="new_task"\<newline>'' @
            lit ''                placeholder="What needs to be done?"\<newline>'' @
            lit ''                required\<newline>'' @
            lit ''                class="flex-grow p-3 border border-gray-300 rounded-lg focus:outline-none focus:ring-2 focus:ring-indigo-500"\<newline>'' @
            lit ''            >\<newline>'' @
            lit ''            <button\<newline>'' @
            lit ''                type="submit"\<newline>'' @
            lit ''                class="bg-indigo-600 hover:bg-indigo-700 text-white font-semibold py-3 px-6 rounded-lg shadow-md transition duration-300 ease-in-out transform hover:scale-105"\<newline>'' @
            lit ''            >\<newline>'' @
            lit ''                Add Task\<newline>'' @
            lit ''            </button>\<newline>'' @
            lit ''        </form>\<newline>'' @
            lit ''\<newline>'' @
            lit ''        <!-- Task List Display -->\<newline>'' @
            lit ''        <ul id="task-list" class="space-y-3">\<newline>'' @
            lit ''            '' @
            lit ''<li class="text-center py-8 text-gray-500 italic">No tasks yet! Add one above.</li>'' @
            lit ''\<newline>'' @
            lit ''        </ul>\<newline>'' @
            lit ''    </div>\<newline>'' @
            lit ''</body>\<newline>'' @
            lit ''</html>\<newline>''),
      [])\<close>
proof -
  have h: "method \<lparr>method = ''GET'', form = []\<rparr> = ''GET''" by simp
  show ?thesis using empty_store_placeholder [OF h] .
qed

text \<open>
  C8. Handling a retrieve (GET) request leaves the store as it was.
\<close>

theorem retrieve_keeps_store:
  "method req = ''GET'' \<Longrightarrow> snd (todo_list req tasks) = tasks"
  by (simp add: todo_list_def)

theorem retrieve_keeps_store_witness:
  "snd (todo_list \<lparr>method = ''GET'', form = [(lit ''new_task'', lit ''x'')]\<rparr> initial_tasks)
     = initial_tasks"
  using retrieve_keeps_store [of "\<lparr>method = ''GET'', form = [(lit ''new_task'', lit ''x'')]\<rparr>"
      initial_tasks]
  by simp

text \<open>
  C9. After a submit request the store is either the store before, or the store before
  with exactly one item appended at its end; every item that was present keeps its value
  and its position.
\<close>

theorem submit_appends_at_most_one:
  "method req = ''POST'' \<Longrightarrow>
   (snd (todo_list req tasks) = tasks \<or> (\<exists>item. snd (todo_list req tasks) = tasks @ [item])) \<and>
   (\<forall>i<length tasks. snd (todo_list req tasks) ! i = tasks ! i)"
  using todo_list_store_cases [of req tasks] by (auto simp: nth_append)

theorem submit_appends_at_most_one_witness:
  "snd (todo_list \<lparr>method = ''POST'', form = [(lit ''new_task'', lit ''a'')]\<rparr> initial_tasks) ! 0
     = lit ''Learn Docker'' \<and>
   snd (todo_list \<lparr>method = ''POST'', form = [(lit ''new_task'', lit ''a'')]\<rparr> initial_tasks) ! 2
     = lit ''Containerize the App''"
  using submit_appends_at_most_one [of "\<lparr>method = ''POST'', form = [(lit ''new_task'', lit ''a'')]\<rparr>"
      initial_tasks]
  by (simp add: initial_tasks_def)

end
